theory Spec2Isabelle
  imports Main
begin

section \<open>Data model of the IPC handlers\<close>

text \<open>
  The development embeds the main-process IPC handlers of the subtitle application
  (\<open>registerHandlers\<close> and its helpers \<open>makeErr\<close> and \<open>resolveNonCollidingPath\<close>).
  Strings are byte lists; the Portuguese messages are written in UTF-8, with the bytes of
  the accented letters given by their code.
\<close>

subsection \<open>Errors\<close>

text \<open>\<open>AppErrorDTO\<close>: the structured error that \<open>makeErr\<close> attaches to the thrown object.\<close>

record AppErrorDTO =
  code :: string
  message :: string
  details :: "string option"
  actionHint :: "string option"

text \<open>
  A thrown JavaScript value, as far as the handlers look at it: its \<open>message\<close> property
  (read as \<open>e?.message\<close>, so it may be undefined) and its \<open>appError\<close> property (present
  only on objects built by \<open>makeErr\<close>).
\<close>

datatype js_error = JsError (err_message: "string option") (appError: "AppErrorDTO option")

definition makeErr :: "string \<Rightarrow> string \<Rightarrow> string option \<Rightarrow> string option \<Rightarrow> js_error" where
  "makeErr c m d h =
     JsError (Some m) (Some \<lparr>code = c, message = m, details = d, actionHint = h\<rparr>)"

subsection \<open>Requests, records and events\<close>

datatype SubtitleFormat = srt | ass

datatype GranularityPreset = LOW | MEDIUM | HIGH | ULTRA

text \<open>
  \<open>StartJobRequest\<close>. The payload arrives over IPC unchecked, and the handler guards
  \<open>language\<close> and \<open>modelId\<close> with \<open>||\<close> and \<open>granularity\<close> with \<open>??\<close>; these three fields
  are therefore optional here (\<open>None\<close> is \<open>undefined\<close>).
\<close>

record StartJobRequest =
  req_audioPath :: string
  req_language :: "string option"
  req_modelId :: "string option"
  req_format :: SubtitleFormat
  req_outputPath :: string
  req_granularity :: "GranularityPreset option"

text \<open>
  \<open>GeneratedFileDTO\<close>. \<open>language\<close> and \<open>modelId\<close> are copied from the request as they
  came. The field \<open>id\<close> is called \<open>gf_id\<close>.
\<close>

record GeneratedFileDTO =
  gf_id :: string
  gf_path :: string
  gf_fileName :: string
  gf_format :: SubtitleFormat
  gf_language :: "string option"
  gf_modelId :: "string option"
  gf_createdAtISO :: string
  gf_exists :: bool

record SubtitleCueDTO =
  cue_index :: nat
  cue_startMs :: nat
  cue_endMs :: nat
  cue_text :: string

text \<open>The first argument of \<open>runner.run\<close>.\<close>

record run_params =
  rp_audioPath :: string
  rp_language :: string
  rp_model :: string
  rp_granularity :: GranularityPreset

datatype JobStep = PREPARING | TRANSCRIBING | CONVERTING | SAVING | DONE

datatype ChangeReason = CREATED | RENAMED | DELETED

text \<open>
  What \<open>emitJobProgress\<close>, \<open>emitJobDone\<close>, \<open>emitJobError\<close> and \<open>emitGeneratedChanged\<close>
  send to the window. \<open>JobDone\<close> carries the job identifier, the \<open>generated\<close> triple
  (id, path, fileName) and the preview.
\<close>

datatype event =
    JobProgress string JobStep string
  | JobDone string string string string "SubtitleCueDTO list"
  | JobError string js_error
  | GeneratedChanged ChangeReason

subsection \<open>The environment of a handler call\<close>

text \<open>
  Node's \<open>path\<close> module is a library, not code of the repository: the handlers are
  modelled over its four functions (\<open>basename\<close> with one and with two arguments).
\<close>

record path_api =
  path_dirname :: "string \<Rightarrow> string"
  path_extname :: "string \<Rightarrow> string"
  path_basename :: "string \<Rightarrow> string"
  path_basename_ext :: "string \<Rightarrow> string \<Rightarrow> string"
  path_join :: "string \<Rightarrow> string \<Rightarrow> string"

datatype fs_call =
    RenameSync string string
  | UnlinkSync string
  | CopyFileSync string string

datatype store_error = ValidationError | NotFound

text \<open>
  Everything a handler call takes from outside: the path library, the sanitizer of
  \<open>utils/sanitizeFileName\<close>, the two \<open>crypto.randomUUID()\<close> results and the clock of a job,
  and the outcomes of the calls into the operating system and into the runner and codec
  classes (a thrown value, or success). \<open>store_throw\<close> is the object the store throws for
  each of its two failures.
\<close>

record env =
  paths :: path_api
  sanitizeBaseName :: "string \<Rightarrow> string"
  uuid_job :: string
  uuid_item :: string
  now_iso :: string
  run_outcome :: "run_params \<Rightarrow> js_error + string"
  convert_fault :: "string \<Rightarrow> string \<Rightarrow> js_error option"
  fs_fault :: "fs_call \<Rightarrow> js_error option"
  preview_outcome :: "string \<Rightarrow> js_error + SubtitleCueDTO list"
  store_throw :: "store_error \<Rightarrow> js_error"

text \<open>
  The state the handlers share: the files on disk (the set of paths at which
  \<open>fs.existsSync\<close> answers true), the store's catalog in insertion order, the keys of
  the \<open>runners\<close> map, the events sent to the window (oldest first), and the calls made
  to \<open>run\<close> and \<open>cancel\<close> of the runners, each with the job identifier the runner is
  registered under.
\<close>

record world =
  files :: "string set"
  catalog :: "GeneratedFileDTO list"
  runners :: "string set"
  events :: "event list"
  run_calls :: "(string \<times> run_params) list"
  cancel_calls :: "string list"

text \<open>
  Modelled from the spec: the functions of \<open>./events\<close> are not among the sources. Each
  delivers its payload to the window as one event and does not fail.
\<close>

definition emit :: "event \<Rightarrow> world \<Rightarrow> world" where
  "emit ev w = w\<lparr>events := events w @ [ev]\<rparr>"

subsection \<open>File system\<close>

definition existsSync :: "string set \<Rightarrow> string \<Rightarrow> bool" where
  "existsSync fs p = (p \<in> fs)"

text \<open>
  A mutating call fails when the environment says so (with the value it throws);
  otherwise it has its effect on the set of existing paths.
\<close>

definition renameSync :: "env \<Rightarrow> string \<Rightarrow> string \<Rightarrow> string set \<Rightarrow> js_error + string set" where
  "renameSync E old new fs =
     (case fs_fault E (RenameSync old new) of
        Some e \<Rightarrow> Inl e
      | None \<Rightarrow> Inr (insert new (fs - {old})))"

definition unlinkSync :: "env \<Rightarrow> string \<Rightarrow> string set \<Rightarrow> js_error + string set" where
  "unlinkSync E p fs =
     (case fs_fault E (UnlinkSync p) of
        Some e \<Rightarrow> Inl e
      | None \<Rightarrow> Inr (fs - {p}))"

definition copyFileSync :: "env \<Rightarrow> string \<Rightarrow> string \<Rightarrow> string set \<Rightarrow> js_error + string set" where
  "copyFileSync E src dst fs =
     (case fs_fault E (CopyFileSync src dst) of
        Some e \<Rightarrow> Inl e
      | None \<Rightarrow> Inr (insert dst fs))"

subsection \<open>The store\<close>

text \<open>
  Modelled from the spec: the class \<open>GeneratedFilesStore\<close> (\<open>store/generatedFilesStore\<close>)
  is not among the sources. \<open>list\<close> returns all records in insertion order; \<open>add\<close> appends
  one record and fails with \<open>ValidationError\<close> if the identifier already exists;
  \<open>update\<close> applies a transformation to the record matching the identifier and fails with
  \<open>NotFound\<close> if it is absent; \<open>remove\<close> deletes the record matching the identifier and
  is a no-op if it is absent.
\<close>

definition store_list :: "GeneratedFileDTO list \<Rightarrow> GeneratedFileDTO list" where
  "store_list c = c"

definition store_add :: "GeneratedFileDTO \<Rightarrow> GeneratedFileDTO list \<Rightarrow> store_error + GeneratedFileDTO list" where
  "store_add r c = (if gf_id r \<in> gf_id ` set c then Inl ValidationError else Inr (c @ [r]))"

definition store_update ::
  "string \<Rightarrow> (GeneratedFileDTO \<Rightarrow> GeneratedFileDTO) \<Rightarrow> GeneratedFileDTO list \<Rightarrow> store_error + GeneratedFileDTO list" where
  "store_update i f c =
     (if i \<in> gf_id ` set c then Inr (map (\<lambda>x. if gf_id x = i then f x else x) c)
      else Inl NotFound)"

definition store_remove :: "string \<Rightarrow> GeneratedFileDTO list \<Rightarrow> GeneratedFileDTO list" where
  "store_remove i c = filter (\<lambda>x. gf_id x \<noteq> i) c"

subsection \<open>Collision-free rename target\<close>

text \<open>The decimal numeral that a template literal prints for a natural number.\<close>

fun decimal :: "nat \<Rightarrow> string" where
  "decimal n = (if n < 10 then [''0123456789'' ! n] else decimal (n div 10) @ [''0123456789'' ! (n mod 10)])"

declare decimal.simps [simp del]

definition candidate :: "path_api \<Rightarrow> string \<Rightarrow> nat \<Rightarrow> string" where
  "candidate P p i =
     path_join P (path_dirname P p)
       (path_basename_ext P p (path_extname P p) @ '' ('' @ decimal i @ '')'' @ path_extname P p)"

text \<open>The \<open>for\<close> loop of \<open>resolveNonCollidingPath\<close>, from \<open>i\<close> on.\<close>

function probe :: "path_api \<Rightarrow> string set \<Rightarrow> string \<Rightarrow> nat \<Rightarrow> string" where
  "probe P fs p i =
     (if i < 1000 then
        (if \<not> existsSync fs (candidate P p i) then candidate P p i
         else probe P fs p (i + 1))
      else p)"
  by pat_completeness auto
termination
  by (relation "measure (\<lambda>(P, fs, p, i). 1000 - i)") auto

declare probe.simps [simp del]

definition resolveNonCollidingPath :: "path_api \<Rightarrow> string set \<Rightarrow> string \<Rightarrow> string" where
  "resolveNonCollidingPath P fs p = (if \<not> existsSync fs p then p else probe P fs p 1)"

section \<open>The handlers\<close>

subsection \<open>Messages\<close>

definition msg_not_in_history :: string where
  "msg_not_in_history =
     ''Arquivo n'' @ [CHR 0xC3, CHR 0xA3] @ ''o encontrado no hist'' @ [CHR 0xC3, CHR 0xB3] @ ''rico.''"

definition msg_not_on_disk :: string where
  "msg_not_on_disk = ''Arquivo n'' @ [CHR 0xC3, CHR 0xA3] @ ''o existe mais no disco.''"

definition msg_invalid_name :: string where
  "msg_invalid_name = ''Nome inv'' @ [CHR 0xC3, CHR 0xA1] @ ''lido.''"

definition msg_rename_failed :: string where
  "msg_rename_failed =
     ''N'' @ [CHR 0xC3, CHR 0xA3] @ ''o foi poss'' @ [CHR 0xC3, CHR 0xAD] @ ''vel renomear o arquivo.''"

definition msg_delete_failed :: string where
  "msg_delete_failed =
     ''N'' @ [CHR 0xC3, CHR 0xA3] @ ''o foi poss'' @ [CHR 0xC3, CHR 0xAD] @ ''vel apagar o arquivo.''"

definition msg_select_audio :: string where
  "msg_select_audio = ''Selecione um '' @ [CHR 0xC3, CHR 0xA1] @ ''udio.''"

definition msg_transcribing :: string where
  "msg_transcribing = ''Transcrevendo '' @ [CHR 0xC3, CHR 0xA1] @ ''udio (whisper)...''"

definition msg_done :: string where
  "msg_done = ''Conclu'' @ [CHR 0xC3, CHR 0xAD] @ ''do.''"

subsection \<open>History: list, rename, delete\<close>

text \<open>\<open>IPC.GENERATED_LIST\<close>: the items of the response \<open>{ ok: true, items }\<close>.\<close>

definition GENERATED_LIST :: "world \<Rightarrow> GeneratedFileDTO list" where
  "GENERATED_LIST w =
     map (\<lambda>x. x\<lparr>gf_exists := existsSync (files w) (gf_path x)\<rparr>) (store_list (catalog w))"

text \<open>
  \<open>IPC.GENERATED_RENAME\<close> with the request \<open>{ id, newBaseName }\<close>: the thrown value or
  the item of the response, and the state afterwards.
\<close>

definition GENERATED_RENAME ::
  "env \<Rightarrow> string \<Rightarrow> string \<Rightarrow> world \<Rightarrow> (js_error + GeneratedFileDTO) \<times> world" where
  "GENERATED_RENAME E rid newBaseName w =
     (case find (\<lambda>x. gf_id x = rid) (store_list (catalog w)) of
        None \<Rightarrow> (Inl (makeErr ''FILE_NOT_FOUND'' msg_not_in_history None None), w)
      | Some found \<Rightarrow>
          if \<not> existsSync (files w) (gf_path found)
          then (Inl (makeErr ''FILE_NOT_FOUND'' msg_not_on_disk None None), w)
          else
            let base = sanitizeBaseName E newBaseName in
            if base = [] then (Inl (makeErr ''VALIDATION_ERROR'' msg_invalid_name None None), w)
            else
              let dir = path_dirname (paths E) (gf_path found);
                  ext = path_extname (paths E) (gf_path found);
                  newPath = path_join (paths E) dir (base @ ext);
                  finalPath = resolveNonCollidingPath (paths E) (files w) newPath
              in (case renameSync E (gf_path found) finalPath (files w) of
                    Inl e \<Rightarrow>
                      (Inl (makeErr ''FILE_RENAME_FAILED'' msg_rename_failed (err_message e) None), w)
                  | Inr fs' \<Rightarrow>
                      let updated = found\<lparr>gf_path := finalPath,
                                          gf_fileName := path_basename (paths E) finalPath,
                                          gf_exists := True\<rparr>
                      in (case store_update rid (\<lambda>_. updated) (catalog w) of
                            Inl se \<Rightarrow> (Inl (store_throw E se), w\<lparr>files := fs'\<rparr>)
                          | Inr c' \<Rightarrow>
                              (Inr updated,
                               emit (GeneratedChanged RENAMED) (w\<lparr>files := fs', catalog := c'\<rparr>)))))"

text \<open>\<open>IPC.GENERATED_DELETE\<close> with the request \<open>{ id }\<close>.\<close>

definition GENERATED_DELETE :: "env \<Rightarrow> string \<Rightarrow> world \<Rightarrow> (js_error + unit) \<times> world" where
  "GENERATED_DELETE E rid w =
     (case find (\<lambda>x. gf_id x = rid) (store_list (catalog w)) of
        None \<Rightarrow> (Inl (makeErr ''FILE_NOT_FOUND'' msg_not_in_history None None), w)
      | Some found \<Rightarrow>
          (case (if existsSync (files w) (gf_path found)
                 then unlinkSync E (gf_path found) (files w) else Inr (files w)) of
             Inl e \<Rightarrow>
               (Inl (makeErr ''FILE_DELETE_FAILED'' msg_delete_failed (err_message e) None), w)
           | Inr fs' \<Rightarrow>
               (Inr (),
                emit (GeneratedChanged DELETED)
                  (w\<lparr>files := fs', catalog := store_remove rid (catalog w)\<rparr>))))"

subsection \<open>Jobs: start and cancel\<close>

text \<open>\<open>res.srtPath.replace(/\.srt$/i, ".ass")\<close>.\<close>

definition ends_with_srt :: "string \<Rightarrow> bool" where
  "ends_with_srt s =
     (case rev s of
        c3 # c2 # c1 # c0 # _ \<Rightarrow>
          c0 = CHR ''.'' \<and> (c1 = CHR ''s'' \<or> c1 = CHR ''S'') \<and> (c2 = CHR ''r'' \<or> c2 = CHR ''R'')
          \<and> (c3 = CHR ''t'' \<or> c3 = CHR ''T'')
      | _ \<Rightarrow> False)"

definition replace_srt_ext :: "string \<Rightarrow> string" where
  "replace_srt_ext s = (if ends_with_srt s then take (length s - 4) s @ ''.ass'' else s)"

text \<open>
  Modelled from the spec: \<open>convertSrtFileToAss\<close> (\<open>utils/srtToAss\<close>) is not among the
  sources. It converts the native-format file into the second format at the given
  path, or fails.
\<close>

definition convertSrtFileToAss :: "env \<Rightarrow> string \<Rightarrow> string \<Rightarrow> string set \<Rightarrow> js_error + string set" where
  "convertSrtFileToAss E src dst fs =
     (case convert_fault E src dst of
        Some e \<Rightarrow> Inl e
      | None \<Rightarrow> Inr (insert dst fs))"

text \<open>
  Modelled from the spec: the class \<open>WhisperRunner\<close> (\<open>infra/whisper/WhisperRunner\<close>) is
  not among the sources. \<open>run\<close> resolves with the path of the native-format subtitle
  file it produced, or fails; \<open>cancel()\<close> requests the termination of the process and
  does not throw. Both calls are recorded with the job identifier the runner is
  registered under.
\<close>

definition runner_run :: "env \<Rightarrow> string \<Rightarrow> run_params \<Rightarrow> world \<Rightarrow> (js_error + string) \<times> world" where
  "runner_run E jobId ps w =
     (let w1 = w\<lparr>run_calls := run_calls w @ [(jobId, ps)]\<rparr> in
      case run_outcome E ps of
        Inl e \<Rightarrow> (Inl e, w1)
      | Inr srtPath \<Rightarrow> (Inr srtPath, w1\<lparr>files := insert srtPath (files w1)\<rparr>))"

definition runner_cancel :: "string \<Rightarrow> world \<Rightarrow> world" where
  "runner_cancel jobId w = w\<lparr>cancel_calls := cancel_calls w @ [jobId]\<rparr>"

text \<open>
  The \<open>if (req.format === "srt") ... else ...\<close> statement: the thrown value, if any, and
  the files afterwards.
\<close>

definition write_output :: "env \<Rightarrow> StartJobRequest \<Rightarrow> string \<Rightarrow> string set \<Rightarrow> js_error option \<times> string set" where
  "write_output E req srtPath fs =
     (if req_format req = srt then
        (case copyFileSync E srtPath (req_outputPath req) fs of
           Inl e \<Rightarrow> (Some e, fs)
         | Inr fs' \<Rightarrow> (None, fs'))
      else
        let tmpAss = replace_srt_ext srtPath in
        (case convertSrtFileToAss E srtPath tmpAss fs of
           Inl e \<Rightarrow> (Some e, fs)
         | Inr fs1 \<Rightarrow>
             (case copyFileSync E tmpAss (req_outputPath req) fs1 of
                Inl e \<Rightarrow> (Some e, fs1)
              | Inr fs' \<Rightarrow> (None, fs'))))"

definition run_params_of :: "StartJobRequest \<Rightarrow> run_params" where
  "run_params_of req =
     \<lparr>rp_audioPath = req_audioPath req,
      rp_language = (case req_language req of None \<Rightarrow> ''pt'' | Some l \<Rightarrow> if l = [] then ''pt'' else l),
      rp_model = (case req_modelId req of None \<Rightarrow> ''small'' | Some m \<Rightarrow> if m = [] then ''small'' else m),
      rp_granularity = (case req_granularity req of None \<Rightarrow> MEDIUM | Some g \<Rightarrow> g)\<rparr>"

text \<open>
  The statements of the \<open>try\<close> block after a successful \<open>run\<close>, from the \<open>CONVERTING\<close>
  event on.
\<close>

definition job_save :: "env \<Rightarrow> StartJobRequest \<Rightarrow> string \<Rightarrow> string \<Rightarrow> world \<Rightarrow> (js_error + string) \<times> world" where
  "job_save E req jobId srtPath w =
     (let w1 = emit (JobProgress jobId CONVERTING ''Preparando legenda...'') w;
          w2 = emit (JobProgress jobId SAVING ''Salvando arquivo...'') w1;
          created = \<lparr>gf_id = uuid_item E,
                     gf_path = req_outputPath req,
                     gf_fileName = path_basename (paths E) (req_outputPath req),
                     gf_format = req_format req,
                     gf_language = req_language req,
                     gf_modelId = req_modelId req,
                     gf_createdAtISO = now_iso E,
                     gf_exists = True\<rparr>
      in case store_add created (catalog w2) of
           Inl se \<Rightarrow> (Inl (store_throw E se), w2)
         | Inr c' \<Rightarrow>
             let w3 = emit (GeneratedChanged CREATED) (w2\<lparr>catalog := c'\<rparr>) in
             (case preview_outcome E srtPath of
                Inl e \<Rightarrow> (Inl e, w3)
              | Inr preview \<Rightarrow>
                  let w4 = emit (JobDone jobId (gf_id created) (gf_path created) (gf_fileName created) preview) w3;
                      w5 = emit (JobProgress jobId DONE msg_done) w4
                  in (Inr jobId, w5)))"

text \<open>The \<open>try\<close> block.\<close>

definition job_try :: "env \<Rightarrow> StartJobRequest \<Rightarrow> string \<Rightarrow> world \<Rightarrow> (js_error + string) \<times> world" where
  "job_try E req jobId w =
     (let w1 = emit (JobProgress jobId TRANSCRIBING msg_transcribing) w in
      case runner_run E jobId (run_params_of req) w1 of
        (Inl e, w2) \<Rightarrow> (Inl e, w2)
      | (Inr srtPath, w2) \<Rightarrow>
          (case write_output E req srtPath (files w2) of
             (Some e, fs') \<Rightarrow> (Inl e, w2\<lparr>files := fs'\<rparr>)
           | (None, fs') \<Rightarrow> job_save E req jobId srtPath (w2\<lparr>files := fs'\<rparr>)))"

text \<open>
  \<open>IPC.JOB_START\<close>: the thrown value or the \<open>jobId\<close> of the response, and the state
  afterwards. The \<open>catch\<close> clause emits the error event and rethrows; the \<open>finally\<close>
  clause deregisters the runner. The pause of 50 ms after the \<open>CONVERTING\<close> event has no
  effect on the state.
\<close>

definition JOB_START :: "env \<Rightarrow> StartJobRequest \<Rightarrow> world \<Rightarrow> (js_error + string) \<times> world" where
  "JOB_START E req w =
     (let jobId = uuid_job E in
      if req_audioPath req = [] then
        (Inl (makeErr ''AUDIO_NOT_SELECTED'' msg_select_audio None (Some ''PICK_AUDIO'')), w)
      else if req_outputPath req = [] then
        (Inl (makeErr ''OUTPUT_PATH_REQUIRED'' ''Escolha onde salvar antes de gerar.'' None
               (Some ''CHOOSE_OUTPUT'')), w)
      else
        let w1 = emit (JobProgress jobId PREPARING ''Validando arquivos e modelo...'') w;
            w2 = w1\<lparr>runners := insert jobId (runners w1)\<rparr>
        in case job_try E req jobId w2 of
             (Inl e, w3) \<Rightarrow>
               let w4 = emit (JobError jobId
                          (makeErr ''WHISPER_FAILED'' ''Falha ao transcrever com Whisper.''
                             (err_message e) None)) w3
               in (Inl e, w4\<lparr>runners := runners w4 - {jobId}\<rparr>)
           | (Inr r, w3) \<Rightarrow> (Inr r, w3\<lparr>runners := runners w3 - {jobId}\<rparr>))"

text \<open>\<open>IPC.JOB_CANCEL\<close> with the request \<open>{ jobId }\<close>.\<close>

definition JOB_CANCEL :: "string \<Rightarrow> world \<Rightarrow> (js_error + unit) \<times> world" where
  "JOB_CANCEL jobId w =
     (if jobId \<in> runners w
      then (let w1 = runner_cancel jobId w in (Inr (), w1\<lparr>runners := runners w1 - {jobId}\<rparr>))
      else (Inr (), w))"

subsection \<open>Observations\<close>

text \<open>The events sent between two states, and the steps of a job's progress events among them.\<close>

definition emitted :: "world \<Rightarrow> world \<Rightarrow> event list" where
  "emitted w w' = drop (length (events w)) (events w')"

fun progress_steps :: "string \<Rightarrow> event list \<Rightarrow> JobStep list" where
  "progress_steps j [] = []"
| "progress_steps j (JobProgress j' s m # es) =
     (if j' = j then s # progress_steps j es else progress_steps j es)"
| "progress_steps j (_ # es) = progress_steps j es"

fun error_events :: "string \<Rightarrow> event list \<Rightarrow> js_error list" where
  "error_events j [] = []"
| "error_events j (JobError j' e # es) =
     (if j' = j then e # error_events j es else error_events j es)"
| "error_events j (_ # es) = error_events j es"

section \<open>Concrete environments\<close>

text \<open>
  An instance of the path interface for evaluating the handlers on concrete inputs. On
  a normalised path without a trailing separator (the root \<open>/\<close> apart), and for \<open>join\<close>
  on such a directory and one name without a separator, the five functions compute what
  Node's \<open>path.posix\<close> computes: \<open>join\<close> drops an empty name and the name \<open>.\<close>, and
  steps to the parent directory on the name \<open>..\<close>.
\<close>

definition posix_basename :: "string \<Rightarrow> string" where
  "posix_basename p = rev (takeWhile (\<lambda>c. c \<noteq> CHR ''/'') (rev p))"

definition posix_dirname :: "string \<Rightarrow> string" where
  "posix_dirname p =
     (if CHR ''/'' \<notin> set p then ''.''
      else let d = rev (tl (dropWhile (\<lambda>c. c \<noteq> CHR ''/'') (rev p)))
           in if d = [] then ''/'' else d)"

definition posix_extname :: "string \<Rightarrow> string" where
  "posix_extname p =
     (let b = posix_basename p; e = takeWhile (\<lambda>c. c \<noteq> CHR ''.'') (rev b)
      in if CHR ''.'' \<notin> set b \<or> length e + 1 = length b \<or> b = ''..'' then []
         else CHR ''.'' # rev e)"

definition posix_basename_ext :: "string \<Rightarrow> string \<Rightarrow> string" where
  "posix_basename_ext p ext =
     (let b = posix_basename p
      in if ext \<noteq> [] \<and> length ext < length b \<and> drop (length b - length ext) b = ext
         then take (length b - length ext) b else b)"

definition posix_join :: "string \<Rightarrow> string \<Rightarrow> string" where
  "posix_join d n =
     (if n = [] \<or> n = ''.'' then (if d = [] then ''.'' else d)
      else if n = ''..'' then (if d = [] \<or> d = ''.'' then ''..'' else posix_dirname d)
      else if d = [] \<or> d = ''.'' then n
      else if d = ''/'' then ''/'' @ n
      else d @ ''/'' @ n)"

definition posix :: path_api where
  "posix = \<lparr>path_dirname = posix_dirname, path_extname = posix_extname,
            path_basename = posix_basename, path_basename_ext = posix_basename_ext,
            path_join = posix_join\<rparr>"

text \<open>
  The handler's \<open>sanitizeBaseName\<close> (\<open>utils/sanitizeFileName\<close>) is a parameter of the
  model. For concrete inputs it is instantiated with the function of the same name
  that \<open>App.tsx\<close> defines, on strings of ASCII characters: trim, delete the characters
  \<open>< > : " / \ | ? *\<close> and the control characters, replace each run of white space by
  one space, trim. (On other strings the source also treats the white space beyond
  ASCII, such as U+00A0, which this instance leaves alone.)
\<close>

definition is_space :: "char \<Rightarrow> bool" where
  "is_space c = (c = CHR '' '' \<or> c = CHR 0x09 \<or> c = CHR 0x0A \<or> c = CHR 0x0B \<or> c = CHR 0x0C \<or> c = CHR 0x0D)"

definition trim :: "string \<Rightarrow> string" where
  "trim s = rev (dropWhile is_space (rev (dropWhile is_space s)))"

definition forbidden :: "char \<Rightarrow> bool" where
  "forbidden c =
     (c = CHR ''<'' \<or> c = CHR ''>'' \<or> c = CHR '':'' \<or> c = CHR 0x22 \<or> c = CHR ''/'' \<or> c = CHR 0x5C
      \<or> c = CHR ''|'' \<or> c = CHR ''?'' \<or> c = CHR ''*'' \<or> (of_char c :: nat) < 32)"

fun collapse :: "bool \<Rightarrow> string \<Rightarrow> string" where
  "collapse prev [] = []"
| "collapse prev (c # cs) =
     (if is_space c then (if prev then collapse True cs else CHR '' '' # collapse True cs)
      else c # collapse False cs)"

definition sanitizeBaseName_App :: "string \<Rightarrow> string" where
  "sanitizeBaseName_App input = trim (collapse False (filter (\<lambda>c. \<not> forbidden c) (trim input)))"

text \<open>
  An environment in which every call succeeds: the runner produces
  \<open>/tmp/job-1/audio.srt\<close>, whose preview has the two cues of the spec's end-to-end
  example.
\<close>

definition env_ok :: env where
  "env_ok =
     \<lparr>paths = posix,
      sanitizeBaseName = sanitizeBaseName_App,
      uuid_job = ''job-1'',
      uuid_item = ''item-2'',
      now_iso = ''2024-05-01T10:00:00.000Z'',
      run_outcome = (\<lambda>ps. Inr ''/tmp/job-1/audio.srt''),
      convert_fault = (\<lambda>src dst. None),
      fs_fault = (\<lambda>c. None),
      preview_outcome = (\<lambda>p. Inr [\<lparr>cue_index = 1, cue_startMs = 0, cue_endMs = 1500, cue_text = ''Hello''\<rparr>,
                                    \<lparr>cue_index = 2, cue_startMs = 1500, cue_endMs = 3200, cue_text = ''World''\<rparr>]),
      store_throw = (\<lambda>se. JsError (Some ''store'') None)\<rparr>"

text \<open>
  The same environment, except that the operating system refuses every call that changes
  a file.
\<close>

definition err_eacces :: js_error where
  "err_eacces = JsError (Some ''EACCES: permission denied'') None"

definition env_fs_denied :: env where
  "env_fs_denied = env_ok\<lparr>fs_fault := (\<lambda>c. Some err_eacces)\<rparr>"

text \<open>
  A state with two catalogued files, one on disk and one not, no job running and nothing
  sent yet.
\<close>

definition rec_a :: GeneratedFileDTO where
  "rec_a = \<lparr>gf_id = ''item-0'', gf_path = ''/out/a.srt'', gf_fileName = ''a.srt'', gf_format = srt,
            gf_language = Some ''pt'', gf_modelId = Some ''small'',
            gf_createdAtISO = ''2024-04-01T09:00:00.000Z'', gf_exists = True\<rparr>"

definition rec_b :: GeneratedFileDTO where
  "rec_b = \<lparr>gf_id = ''item-1'', gf_path = ''/out/b.ass'', gf_fileName = ''b.ass'', gf_format = ass,
            gf_language = Some ''en'', gf_modelId = Some ''base'',
            gf_createdAtISO = ''2024-04-02T09:00:00.000Z'', gf_exists = True\<rparr>"

definition world0 :: world where
  "world0 = \<lparr>files = {''/out/a.srt'', ''/out/X.srt'', ''/out/X (1).srt''}, catalog = [rec_a, rec_b],
             runners = {}, events = [], run_calls = [], cancel_calls = []\<rparr>"

definition req_srt :: StartJobRequest where
  "req_srt = \<lparr>req_audioPath = ''/in/audio.mp3'', req_language = Some [], req_modelId = None,
              req_format = srt, req_outputPath = ''/out/talk.srt'', req_granularity = None\<rparr>"

definition req_ass :: StartJobRequest where
  "req_ass = \<lparr>req_audioPath = ''/in/audio.mp3'', req_language = Some ''en'', req_modelId = Some ''base'',
              req_format = ass, req_outputPath = ''/out/talk.ass'', req_granularity = Some HIGH\<rparr>"

text \<open>An environment in which the identifier drawn for the new record is already in the catalog.\<close>

definition env_dup :: env where
  "env_dup = env_ok\<lparr>uuid_item := ''item-0''\<rparr>"

text \<open>The state \<open>world0\<close> while the job \<open>job-1\<close> is running.\<close>

definition world_running :: world where
  "world_running = world0\<lparr>runners := {''job-1''}\<rparr>"

text \<open>
  A record whose file has no extension: the output path of a job is whatever path the
  request names. \<open>world_noext\<close> is the state after the job \<open>req_noext\<close> has run in
  \<open>world0\<close>.
\<close>

definition req_noext :: StartJobRequest where
  "req_noext = \<lparr>req_audioPath = ''/in/audio.mp3'', req_language = Some ''pt'', req_modelId = Some ''small'',
                req_format = srt, req_outputPath = ''/out/noext'', req_granularity = Some MEDIUM\<rparr>"

definition world_noext :: world where
  "world_noext = snd (JOB_START env_ok req_noext world0)"

section \<open>Properties\<close>

subsection \<open>Collision-free rename target\<close>

lemma probe_first:
  "i \<le> k \<Longrightarrow> k < 1000 \<Longrightarrow> \<not> existsSync fs (candidate P p k) \<Longrightarrow>
   (\<forall>j. i \<le> j \<and> j < k \<longrightarrow> existsSync fs (candidate P p j)) \<Longrightarrow> probe P fs p i = candidate P p k"
proof (induction P fs p i rule: probe.induct)
  case (1 P fs p i)
  show ?case
  proof (cases "i = k")
    case True
    with 1 show ?thesis by (simp add: probe.simps[of P fs p k])
  next
    case False
    with 1 have "i < k" by simp
    with 1 show ?thesis by (simp add: probe.simps[of P fs p i])
  qed
qed

lemma probe_exhausted:
  "(\<forall>j. i \<le> j \<and> j < 1000 \<longrightarrow> existsSync fs (candidate P p j)) \<Longrightarrow> probe P fs p i = p"
proof (induction P fs p i rule: probe.induct)
  case (1 P fs p i)
  then show ?case by (simp add: probe.simps[of P fs p i])
qed

lemma probe_cases:
  "probe P fs p i = p \<or>
   (\<exists>k. i \<le> k \<and> k < 1000 \<and> probe P fs p i = candidate P p k \<and> \<not> existsSync fs (candidate P p k))"
proof (induction P fs p i rule: probe.induct)
  case (1 P fs p i)
  show ?case
  proof (cases "i < 1000")
    case False
    then show ?thesis by (simp add: probe.simps[of P fs p i])
  next
    case lt: True
    show ?thesis
    proof (cases "existsSync fs (candidate P p i)")
      case False
      with lt show ?thesis by (auto simp add: probe.simps[of P fs p i])
    next
      case True
      with lt have eq: "probe P fs p i = probe P fs p (i + 1)"
        by (simp add: probe.simps[of P fs p i])
      from 1[OF lt] True have "probe P fs p (i + 1) = p \<or>
          (\<exists>k\<ge>i + 1. k < 1000 \<and> probe P fs p (i + 1) = candidate P p k
             \<and> \<not> existsSync fs (candidate P p k))"
        by simp
      then show ?thesis unfolding eq by (metis add_leD1)
    qed
  qed
qed

lemmas posix_defs = posix_def posix_dirname_def posix_extname_def posix_basename_def
  posix_basename_ext_def posix_join_def

lemma cand1: "candidate posix ''/out/X.srt'' (Suc 0) = ''/out/X (1).srt''"
  by (simp add: candidate_def posix_defs decimal.simps Let_def)

lemma cand2: "candidate posix ''/out/X.srt'' 2 = ''/out/X (2).srt''"
  by (simp add: candidate_def posix_defs decimal.simps Let_def)

text \<open>
  Claim C3. When a file exists at the target \<open>p\<close>, \<open>resolveNonCollidingPath\<close> returns the
  candidate \<open>join(dir, base + " (k)" + ext)\<close> with the least \<open>k\<close> from 1 to 999 at which no
  file exists: every candidate below \<open>k\<close> collides and candidate \<open>k\<close> does not. When all
  999 candidates collide it returns \<open>p\<close> itself.
\<close>

theorem resolve_collision:
  "existsSync fs p \<Longrightarrow>
     (1 \<le> k \<and> k < 1000 \<and> \<not> existsSync fs (candidate P p k)
        \<and> (\<forall>j. 1 \<le> j \<and> j < k \<longrightarrow> existsSync fs (candidate P p j))
        \<longrightarrow> resolveNonCollidingPath P fs p = candidate P p k)
   \<and> ((\<forall>j. 1 \<le> j \<and> j < 1000 \<longrightarrow> existsSync fs (candidate P p j))
        \<longrightarrow> resolveNonCollidingPath P fs p = p)"
  by (simp add: resolveNonCollidingPath_def probe_first probe_exhausted)

text \<open>
  With \<open>/out/X.srt\<close> on disk the target \<open>/out/X.srt\<close> resolves to \<open>/out/X (1).srt\<close>; with
  that one on disk too, to \<open>/out/X (2).srt\<close>; with all 999 candidates on disk, to
  \<open>/out/X.srt\<close>.
\<close>

theorem resolve_collision_witness:
  "existsSync {''/out/X.srt''} ''/out/X.srt''
   \<and> resolveNonCollidingPath posix {''/out/X.srt''} ''/out/X.srt'' = ''/out/X (1).srt''
   \<and> existsSync {''/out/X.srt'', ''/out/X (1).srt''} ''/out/X.srt''
   \<and> resolveNonCollidingPath posix {''/out/X.srt'', ''/out/X (1).srt''} ''/out/X.srt'' = ''/out/X (2).srt''
   \<and> existsSync (insert ''/out/X.srt'' (candidate posix ''/out/X.srt'' ` {1..<1000})) ''/out/X.srt''
   \<and> resolveNonCollidingPath posix (insert ''/out/X.srt'' (candidate posix ''/out/X.srt'' ` {1..<1000})) ''/out/X.srt''
       = ''/out/X.srt''"
proof -
  have a: "resolveNonCollidingPath posix {''/out/X.srt''} ''/out/X.srt'' = ''/out/X (1).srt''"
    using resolve_collision [where fs = "{''/out/X.srt''}" and p = "''/out/X.srt''" and P = posix and k = "Suc 0"]
    by (simp add: existsSync_def cand1)
  have ex2: "existsSync {''/out/X.srt'', ''/out/X (1).srt''} ''/out/X.srt''"
    by (simp add: existsSync_def)
  have below: "existsSync {''/out/X.srt'', ''/out/X (1).srt''} (candidate posix ''/out/X.srt'' j)"
    if "1 \<le> j \<and> j < 2" for j :: nat
  proof -
    from that have "j = Suc 0" by arith
    then show ?thesis by (simp add: existsSync_def cand1)
  qed
  have free2: "\<not> existsSync {''/out/X.srt'', ''/out/X (1).srt''} (candidate posix ''/out/X.srt'' 2)"
    by (simp add: existsSync_def cand2)
  have b: "resolveNonCollidingPath posix {''/out/X.srt'', ''/out/X (1).srt''} ''/out/X.srt'' = ''/out/X (2).srt''"
    using resolve_collision [OF ex2, where P = posix and k = 2] below free2 cand2 by simp
  have c: "resolveNonCollidingPath posix (insert ''/out/X.srt'' (candidate posix ''/out/X.srt'' ` {1..<1000})) ''/out/X.srt''
       = ''/out/X.srt''"
    using resolve_collision [where fs = "insert ''/out/X.srt'' (candidate posix ''/out/X.srt'' ` {1..<1000})"
        and p = "''/out/X.srt''" and P = posix and k = "Suc 0"]
    by (simp add: existsSync_def)
  show ?thesis using a b c by (simp add: existsSync_def)
qed

subsection \<open>Starting a job\<close>

lemma emitted_append: "events w' = events w @ es \<Longrightarrow> emitted w w' = es"
  by (simp add: emitted_def)


lemma runner_run_frame:
  "runner_run E j ps w = (r, w') \<Longrightarrow>
   events w' = events w \<and> runners w' = runners w \<and> catalog w' = catalog w
   \<and> cancel_calls w' = cancel_calls w \<and> run_calls w' = run_calls w @ [(j, ps)]"
  by (auto simp add: runner_run_def Let_def split: sum.splits)

lemma job_save_frame:
  "job_save E req j srtPath w = (r, w') \<Longrightarrow>
   runners w' = runners w \<and> run_calls w' = run_calls w \<and> cancel_calls w' = cancel_calls w
   \<and> (\<exists>es. events w' = events w @ es \<and> error_events j' es = [])"
  by (auto simp add: job_save_def emit_def Let_def split: sum.splits)

lemma job_save_events:
  "job_save E req j srtPath w = (Inr r, w') \<Longrightarrow>
   r = j \<and> (\<exists>preview. events w' = events w @
     [JobProgress j CONVERTING ''Preparando legenda...'',
      JobProgress j SAVING ''Salvando arquivo...'',
      GeneratedChanged CREATED,
      JobDone j (uuid_item E) (req_outputPath req) (path_basename (paths E) (req_outputPath req)) preview,
      JobProgress j DONE msg_done])"
  by (auto simp add: job_save_def emit_def Let_def split: sum.splits)





lemma job_try_cases:
  assumes "job_try E req j w = (r, w')"
  obtains (run_failed) e w1 where
      "runner_run E j (run_params_of req) (emit (JobProgress j TRANSCRIBING msg_transcribing) w) = (Inl e, w1)"
      "r = Inl e" "w' = w1"
  | (write_failed) srtPath w1 e fs' where
      "runner_run E j (run_params_of req) (emit (JobProgress j TRANSCRIBING msg_transcribing) w) = (Inr srtPath, w1)"
      "r = Inl e" "w' = w1\<lparr>files := fs'\<rparr>"
      "write_output E req srtPath (files w1) = (Some e, fs')"
  | (saved) srtPath w1 fs' where
      "runner_run E j (run_params_of req) (emit (JobProgress j TRANSCRIBING msg_transcribing) w) = (Inr srtPath, w1)"
      "job_save E req j srtPath (w1\<lparr>files := fs'\<rparr>) = (r, w')"
      "write_output E req srtPath (files w1) = (None, fs')"
proof -
  obtain r1 w1 where rr:
    "runner_run E j (run_params_of req) (emit (JobProgress j TRANSCRIBING msg_transcribing) w) = (r1, w1)"
    by (cases "runner_run E j (run_params_of req) (emit (JobProgress j TRANSCRIBING msg_transcribing) w)")
  show thesis
  proof (cases r1)
    case (Inl e)
    with assms rr have "r = Inl e" "w' = w1" by (simp_all add: job_try_def)
    with rr Inl show thesis by (intro run_failed) simp_all
  next
    case (Inr srtPath)
    obtain eo fs' where wo: "write_output E req srtPath (files w1) = (eo, fs')"
      by (cases "write_output E req srtPath (files w1)")
    show thesis
    proof (cases eo)
      case None
      with assms rr Inr wo have "job_save E req j srtPath (w1\<lparr>files := fs'\<rparr>) = (r, w')"
        by (simp add: job_try_def)
      with rr Inr wo None show thesis by (intro saved) simp_all
    next
      case (Some e)
      with assms rr Inr wo have "r = Inl e" "w' = w1\<lparr>files := fs'\<rparr>"
        by (simp_all add: job_try_def)
      with rr Inr wo Some show thesis by (intro write_failed) simp_all
    qed
  qed
qed

lemma job_try_frame:
  assumes "job_try E req j w = (r, w')"
  shows "runners w' = runners w \<and> run_calls w' = run_calls w @ [(j, run_params_of req)]
   \<and> cancel_calls w' = cancel_calls w
   \<and> (\<exists>es. events w' = events w @ es \<and> error_events j' es = [])"
  using assms
proof (cases rule: job_try_cases)
  case (run_failed e w1)
  from runner_run_frame[OF run_failed(1)] run_failed(3) show ?thesis
    by (simp add: emit_def)
next
  case (write_failed srtPath w1 e fs')
  from runner_run_frame[OF write_failed(1)] write_failed(3) show ?thesis
    by (simp add: emit_def)
next
  case (saved srtPath w1 fs')
  from job_save_frame[OF saved(2), of j'] obtain es where
    s: "runners w' = runners w1" "run_calls w' = run_calls w1" "cancel_calls w' = cancel_calls w1"
       "events w' = events w1 @ es" "error_events j' es = []"
    by auto
  from runner_run_frame[OF saved(1)] s
  have "events w' = events w @ (JobProgress j TRANSCRIBING msg_transcribing # es)
      \<and> error_events j' (JobProgress j TRANSCRIBING msg_transcribing # es) = []"
    by (simp add: emit_def)
  then have "\<exists>es. events w' = events w @ es \<and> error_events j' es = []" by blast
  with runner_run_frame[OF saved(1)] s show ?thesis by (simp add: emit_def)
qed

lemma job_try_events:
  assumes "job_try E req j w = (Inr r, w')"
  shows "r = j \<and> (\<exists>preview. events w' = events w @
     [JobProgress j TRANSCRIBING msg_transcribing,
      JobProgress j CONVERTING ''Preparando legenda...'',
      JobProgress j SAVING ''Salvando arquivo...'',
      GeneratedChanged CREATED,
      JobDone j (uuid_item E) (req_outputPath req) (path_basename (paths E) (req_outputPath req)) preview,
      JobProgress j DONE msg_done])"
  using assms
proof (cases rule: job_try_cases)
  case (saved srtPath w1 fs')
  from job_save_events[OF saved(2)] runner_run_frame[OF saved(1)] show ?thesis
    by (auto simp add: emit_def)
qed simp_all


lemma job_start_cases:
  assumes "req_audioPath req \<noteq> []" "req_outputPath req \<noteq> []" "JOB_START E req w = (r, w')"
  obtains (failed) e w3 where
      "job_try E req (uuid_job E)
         ((emit (JobProgress (uuid_job E) PREPARING ''Validando arquivos e modelo...'') w)
            \<lparr>runners := insert (uuid_job E) (runners w)\<rparr>) = (Inl e, w3)"
      "r = Inl e"
      "w' = w3\<lparr>events := events w3 @ [JobError (uuid_job E)
                 (makeErr ''WHISPER_FAILED'' ''Falha ao transcrever com Whisper.'' (err_message e) None)],
               runners := runners w3 - {uuid_job E}\<rparr>"
  | (succeeded) j w3 where
      "job_try E req (uuid_job E)
         ((emit (JobProgress (uuid_job E) PREPARING ''Validando arquivos e modelo...'') w)
            \<lparr>runners := insert (uuid_job E) (runners w)\<rparr>) = (Inr j, w3)"
      "r = Inr j"
      "w' = w3\<lparr>runners := runners w3 - {uuid_job E}\<rparr>"
proof -
  obtain r3 w3 where t: "job_try E req (uuid_job E)
         ((emit (JobProgress (uuid_job E) PREPARING ''Validando arquivos e modelo...'') w)
            \<lparr>runners := insert (uuid_job E) (runners w)\<rparr>) = (r3, w3)"
    by (cases "job_try E req (uuid_job E)
         ((emit (JobProgress (uuid_job E) PREPARING ''Validando arquivos e modelo...'') w)
            \<lparr>runners := insert (uuid_job E) (runners w)\<rparr>)")
  have ru: "runners (emit (JobProgress (uuid_job E) PREPARING ''Validando arquivos e modelo...'') w) = runners w"
    by (simp add: emit_def)
  show thesis
  proof (cases r3)
    case (Inl e)
    with assms t ru have "r = Inl e" 
      "w' = w3\<lparr>events := events w3 @ [JobError (uuid_job E)
                 (makeErr ''WHISPER_FAILED'' ''Falha ao transcrever com Whisper.'' (err_message e) None)],
               runners := runners w3 - {uuid_job E}\<rparr>"
      by (simp_all add: JOB_START_def Let_def emit_def)
    with t Inl show thesis by (intro failed) simp_all
  next
    case (Inr j)
    with assms t ru have "r = Inr j" "w' = w3\<lparr>runners := runners w3 - {uuid_job E}\<rparr>"
      by (simp_all add: JOB_START_def Let_def)
    with t Inr show thesis by (intro succeeded) simp_all
  qed
qed

lemma job_start_passed:
  "JOB_START E req w = (Inr r, w') \<Longrightarrow> req_audioPath req \<noteq> [] \<and> req_outputPath req \<noteq> []"
  by (auto simp add: JOB_START_def Let_def split: if_splits)

lemma job_start_events:
  assumes "JOB_START E req w = (Inr r, w')"
  shows "r = uuid_job E \<and> (\<exists>preview. events w' = events w @
     [JobProgress r PREPARING ''Validando arquivos e modelo...'',
      JobProgress r TRANSCRIBING msg_transcribing,
      JobProgress r CONVERTING ''Preparando legenda...'',
      JobProgress r SAVING ''Salvando arquivo...'',
      GeneratedChanged CREATED,
      JobDone r (uuid_item E) (req_outputPath req) (path_basename (paths E) (req_outputPath req)) preview,
      JobProgress r DONE msg_done])"
proof -
  from job_start_passed[OF assms] have a: "req_audioPath req \<noteq> []" and o: "req_outputPath req \<noteq> []"
    by simp_all
  from a o assms show ?thesis
  proof (cases rule: job_start_cases)
    case (succeeded j w3)
    from job_try_events[OF succeeded(1)] succeeded(2,3) show ?thesis
      by (auto simp add: emit_def)
  qed simp
qed

lemma job_start_valid:
  assumes "req_audioPath req \<noteq> []" "req_outputPath req \<noteq> []" "JOB_START E req w = (r, w')"
  shows "uuid_job E \<notin> runners w' \<and> runners w' = runners w - {uuid_job E}
   \<and> run_calls w' = run_calls w @ [(uuid_job E, run_params_of req)]
   \<and> cancel_calls w' = cancel_calls w"
  using assms
proof (cases rule: job_start_cases)
  case (failed e w3)
  from job_try_frame[OF failed(1)] failed(3) show ?thesis by (simp add: emit_def)
next
  case (succeeded j w3)
  from job_try_frame[OF succeeded(1)] succeeded(3) show ?thesis by (simp add: emit_def)
qed


lemmas job_defs = JOB_START_def job_try_def job_save_def runner_run_def write_output_def
  convertSrtFileToAss_def copyFileSync_def store_add_def emit_def run_params_of_def
  replace_srt_ext_def ends_with_srt_def

lemmas sample_defs = env_ok_def env_dup_def world_running_def env_fs_denied_def err_eacces_def world0_def rec_a_def rec_b_def
  req_srt_def req_ass_def

text \<open>
  Claim C1, as amended. The handler emits the \<open>CONVERTING\<close> event after the
  \<open>if (req.format === "srt") ... else ...\<close> statement, whatever the format was. So for
  every successful \<open>startJob\<close> run, with or without a conversion, the returned job
  identifier is the one drawn at the start, and the steps of the progress events emitted
  for it during the call are exactly \<open>PREPARING, TRANSCRIBING, CONVERTING, SAVING, DONE\<close>,
  in that order.
\<close>

theorem job_start_progress:
  "JOB_START E req w = (Inr r, w') \<Longrightarrow>
   r = uuid_job E \<and>
   progress_steps r (emitted w w') = [PREPARING, TRANSCRIBING, CONVERTING, SAVING, DONE]"
proof -
  assume a: "JOB_START E req w = (Inr r, w')"
  from job_start_events[OF a] obtain preview where r: "r = uuid_job E" and
    ev: "events w' = events w @
     [JobProgress r PREPARING ''Validando arquivos e modelo...'',
      JobProgress r TRANSCRIBING msg_transcribing,
      JobProgress r CONVERTING ''Preparando legenda...'',
      JobProgress r SAVING ''Salvando arquivo...'',
      GeneratedChanged CREATED,
      JobDone r (uuid_item E) (req_outputPath req) (path_basename (paths E) (req_outputPath req)) preview,
      JobProgress r DONE msg_done]" by blast
  show ?thesis using r by (simp add: emitted_append[OF ev])
qed

text \<open>A successful run that converts to the second format has the five steps.\<close>

theorem job_start_progress_witness:
  "fst (JOB_START env_ok req_ass world0) = Inr ''job-1''
   \<and> ''job-1'' = uuid_job env_ok
   \<and> progress_steps ''job-1'' (emitted world0 (snd (JOB_START env_ok req_ass world0)))
       = [PREPARING, TRANSCRIBING, CONVERTING, SAVING, DONE]"
proof -
  have f: "fst (JOB_START env_ok req_ass world0) = Inr ''job-1''"
    by (simp add: job_defs sample_defs posix_defs Let_def)
  then have "JOB_START env_ok req_ass world0 = (Inr ''job-1'', snd (JOB_START env_ok req_ass world0))"
    by (metis prod.collapse)
  from job_start_progress[OF this] f show ?thesis by (simp add: env_ok_def)
qed

text \<open>
  Claim C1 as stated fails: a successful run whose requested format is the native one,
  so that nothing is converted, emits the \<open>CONVERTING\<close> event all the same.
\<close>

theorem job_start_progress_counterexample:
  "req_format req_srt = srt
   \<and> fst (JOB_START env_ok req_srt world0) = Inr ''job-1''
   \<and> progress_steps ''job-1'' (emitted world0 (snd (JOB_START env_ok req_srt world0)))
       = [PREPARING, TRANSCRIBING, CONVERTING, SAVING, DONE]"
  by (simp add: job_defs sample_defs posix_defs Let_def emitted_def)




text \<open>
  Claim C4. The two checks come first and in this order. A request with an empty audio
  path fails with \<open>AUDIO_NOT_SELECTED\<close>; a request with an audio path and an empty output
  path fails with \<open>OUTPUT_PATH_REQUIRED\<close>. In both cases the state is returned as it was:
  no event was sent, no runner was registered or run, no file and no record was touched.
\<close>

theorem start_validation:
  "(req_audioPath req = [] \<longrightarrow>
      JOB_START E req w = (Inl (makeErr ''AUDIO_NOT_SELECTED'' msg_select_audio None (Some ''PICK_AUDIO'')), w))
   \<and> (req_audioPath req \<noteq> [] \<and> req_outputPath req = [] \<longrightarrow>
      JOB_START E req w =
        (Inl (makeErr ''OUTPUT_PATH_REQUIRED'' ''Escolha onde salvar antes de gerar.'' None (Some ''CHOOSE_OUTPUT'')), w))"
  by (simp add: JOB_START_def)

text \<open>The two failures on the request \<open>req_srt\<close> with one of its paths emptied.\<close>

theorem start_validation_witness:
  "req_audioPath (req_srt\<lparr>req_audioPath := []\<rparr>) = []
   \<and> JOB_START env_ok (req_srt\<lparr>req_audioPath := []\<rparr>) world0 =
       (Inl (makeErr ''AUDIO_NOT_SELECTED'' msg_select_audio None (Some ''PICK_AUDIO'')), world0)
   \<and> req_audioPath (req_srt\<lparr>req_outputPath := []\<rparr>) \<noteq> [] \<and> req_outputPath (req_srt\<lparr>req_outputPath := []\<rparr>) = []
   \<and> JOB_START env_ok (req_srt\<lparr>req_outputPath := []\<rparr>) world0 =
       (Inl (makeErr ''OUTPUT_PATH_REQUIRED'' ''Escolha onde salvar antes de gerar.'' None (Some ''CHOOSE_OUTPUT'')), world0)"
  using start_validation [of "req_srt\<lparr>req_audioPath := []\<rparr>" env_ok world0]
    start_validation [of "req_srt\<lparr>req_outputPath := []\<rparr>" env_ok world0]
  by (simp add: req_srt_def)

text \<open>
  Claim C10. A call that passed validation calls \<open>run\<close> exactly once, on the runner
  registered under its job identifier, and with the audio path of the request, the
  language of the request or \<open>pt\<close> when that is absent or empty, the model identifier of
  the request or \<open>small\<close> when that is absent or empty, and the density preset of the
  request or \<open>MEDIUM\<close> when that is absent.
\<close>

theorem start_defaults:
  "req_audioPath req \<noteq> [] \<Longrightarrow> req_outputPath req \<noteq> [] \<Longrightarrow>
   run_calls (snd (JOB_START E req w)) = run_calls w @ [(uuid_job E, run_params_of req)]
   \<and> rp_audioPath (run_params_of req) = req_audioPath req
   \<and> (req_language req = None \<or> req_language req = Some [] \<longrightarrow> rp_language (run_params_of req) = ''pt'')
   \<and> (\<forall>l. req_language req = Some l \<and> l \<noteq> [] \<longrightarrow> rp_language (run_params_of req) = l)
   \<and> (req_modelId req = None \<or> req_modelId req = Some [] \<longrightarrow> rp_model (run_params_of req) = ''small'')
   \<and> (\<forall>m. req_modelId req = Some m \<and> m \<noteq> [] \<longrightarrow> rp_model (run_params_of req) = m)
   \<and> (req_granularity req = None \<longrightarrow> rp_granularity (run_params_of req) = MEDIUM)
   \<and> (\<forall>g. req_granularity req = Some g \<longrightarrow> rp_granularity (run_params_of req) = g)"
proof -
  assume a: "req_audioPath req \<noteq> []" and o: "req_outputPath req \<noteq> []"
  have "JOB_START E req w = (fst (JOB_START E req w), snd (JOB_START E req w))" by simp
  from job_start_valid[OF a o this]
  have "run_calls (snd (JOB_START E req w)) = run_calls w @ [(uuid_job E, run_params_of req)]" by simp
  then show ?thesis by (auto simp add: run_params_of_def)
qed

text \<open>
  The request \<open>req_srt\<close> has an empty language, no model identifier and no density
  preset: the runner is called with \<open>pt\<close>, \<open>small\<close> and \<open>MEDIUM\<close>.
\<close>

theorem start_defaults_witness:
  "req_audioPath req_srt \<noteq> [] \<and> req_outputPath req_srt \<noteq> []
   \<and> req_language req_srt = Some [] \<and> req_modelId req_srt = None \<and> req_granularity req_srt = None
   \<and> run_calls (snd (JOB_START env_ok req_srt world0)) =
       [(''job-1'', \<lparr>rp_audioPath = ''/in/audio.mp3'', rp_language = ''pt'', rp_model = ''small'',
                     rp_granularity = MEDIUM\<rparr>)]"
proof -
  have a: "req_audioPath req_srt \<noteq> []" and o: "req_outputPath req_srt \<noteq> []"
    by (simp_all add: req_srt_def)
  have l: "req_language req_srt = Some [] \<and> req_modelId req_srt = None \<and> req_granularity req_srt = None"
    by (simp add: req_srt_def)
  have p: "rp_audioPath (run_params_of req_srt) = ''/in/audio.mp3''" 
    by (simp add: req_srt_def run_params_of_def)
  have "run_params_of req_srt = \<lparr>rp_audioPath = ''/in/audio.mp3'', rp_language = ''pt'', rp_model = ''small'',
                     rp_granularity = MEDIUM\<rparr>"
    using start_defaults[OF a o, of env_ok world0] l p by (cases "run_params_of req_srt") simp
  then show ?thesis using start_defaults[OF a o, of env_ok world0] a o l
    by (simp add: env_ok_def world0_def)
qed

subsection \<open>Cancelling a job\<close>

text \<open>
  Claim C6. If a runner is registered under the job identifier, \<open>cancelJob\<close> calls its
  \<open>cancel()\<close> and deregisters it; otherwise it leaves the state as it is. It always
  succeeds and never sends an event. A second call right after the first changes
  nothing, and so does a call after the \<open>startJob\<close> call of that job has ended, with
  success or with failure.
\<close>

theorem cancel_job:
  "(jobId \<in> runners w \<longrightarrow>
      JOB_CANCEL jobId w =
        (Inr (), w\<lparr>cancel_calls := cancel_calls w @ [jobId], runners := runners w - {jobId}\<rparr>))
   \<and> (jobId \<notin> runners w \<longrightarrow> JOB_CANCEL jobId w = (Inr (), w))
   \<and> fst (JOB_CANCEL jobId w) = Inr ()
   \<and> events (snd (JOB_CANCEL jobId w)) = events w
   \<and> JOB_CANCEL jobId (snd (JOB_CANCEL jobId w)) = (Inr (), snd (JOB_CANCEL jobId w))
   \<and> (req_audioPath req \<noteq> [] \<and> req_outputPath req \<noteq> [] \<longrightarrow>
        JOB_CANCEL (uuid_job E) (snd (JOB_START E req w)) = (Inr (), snd (JOB_START E req w)))"
proof -
  have "uuid_job E \<notin> runners (snd (JOB_START E req w))"
    if "req_audioPath req \<noteq> []" "req_outputPath req \<noteq> []"
    using job_start_valid[OF that, of E w "fst (JOB_START E req w)" "snd (JOB_START E req w)"] by simp
  then show ?thesis by (simp add: JOB_CANCEL_def runner_cancel_def)
qed

text \<open>
  Cancelling the running job \<open>job-1\<close> once and twice, cancelling a job that is not
  running, and cancelling a job that has completed.
\<close>

theorem cancel_job_witness:
  "''job-1'' \<in> runners world_running
   \<and> JOB_CANCEL ''job-1'' world_running = (Inr (), world0\<lparr>cancel_calls := [''job-1'']\<rparr>)
   \<and> ''job-1'' \<notin> runners world0
   \<and> JOB_CANCEL ''job-1'' world0 = (Inr (), world0)
   \<and> JOB_CANCEL ''job-1'' (snd (JOB_CANCEL ''job-1'' world_running)) = (Inr (), world0\<lparr>cancel_calls := [''job-1'']\<rparr>)
   \<and> req_audioPath req_srt \<noteq> [] \<and> req_outputPath req_srt \<noteq> []
   \<and> JOB_CANCEL ''job-1'' (snd (JOB_START env_ok req_srt world0)) = (Inr (), snd (JOB_START env_ok req_srt world0))"
proof -
  note c1 = cancel_job [of "''job-1''" world_running req_srt env_ok]
  note c2 = cancel_job [of "''job-1''" world0 req_srt env_ok]
  have u: "uuid_job env_ok = ''job-1''" by (simp add: env_ok_def)
  have r1: "''job-1'' \<in> runners world_running" by (simp add: world_running_def)
  have r2: "''job-1'' \<notin> runners world0" by (simp add: world0_def)
  have a: "req_audioPath req_srt \<noteq> []" and o: "req_outputPath req_srt \<noteq> []"
    by (simp_all add: req_srt_def)
  from c1 r1 have "JOB_CANCEL ''job-1'' world_running =
      (Inr (), world_running\<lparr>cancel_calls := cancel_calls world_running @ [''job-1''],
                 runners := runners world_running - {''job-1''}\<rparr>)" by blast
  then have 1: "JOB_CANCEL ''job-1'' world_running = (Inr (), world0\<lparr>cancel_calls := [''job-1'']\<rparr>)"
    by (simp add: world_running_def world0_def)
  from c2 r2 have 2: "JOB_CANCEL ''job-1'' world0 = (Inr (), world0)" by blast
  from c1 have "JOB_CANCEL ''job-1'' (snd (JOB_CANCEL ''job-1'' world_running))
      = (Inr (), snd (JOB_CANCEL ''job-1'' world_running))" by blast
  then have 3: "JOB_CANCEL ''job-1'' (snd (JOB_CANCEL ''job-1'' world_running))
      = (Inr (), world0\<lparr>cancel_calls := [''job-1'']\<rparr>)" by (simp add: 1)
  from c2 a o u have 4: "JOB_CANCEL ''job-1'' (snd (JOB_START env_ok req_srt world0))
      = (Inr (), snd (JOB_START env_ok req_srt world0))" by simp
  from r1 r2 a o 1 2 3 4 show ?thesis by simp
qed

subsection \<open>History\<close>

lemma resolve_cases:
  "resolveNonCollidingPath P fs p = p \<or>
   (\<exists>k. 1 \<le> k \<and> k < 1000 \<and> resolveNonCollidingPath P fs p = candidate P p k)"
  using probe_cases[of P fs p 1] by (auto simp add: resolveNonCollidingPath_def)

lemma find_id: "find (\<lambda>x. gf_id x = rid) c = Some found \<Longrightarrow> gf_id found = rid \<and> rid \<in> gf_id ` set c"
  by (induction c) (auto split: if_splits)

lemmas sanitize_defs = sanitizeBaseName_App_def trim_def is_space_def forbidden_def

text \<open>
  Claim C7. \<open>renameArtifact\<close> checks in this order: it fails with \<open>FILE_NOT_FOUND\<close> if
  no record of the catalog has the identifier; with \<open>FILE_NOT_FOUND\<close> if the record found
  has no file on disk; with \<open>VALIDATION_ERROR\<close> if the record and its file are there and
  the sanitized new base name is empty. In each case the state is returned as it was: no
  file was renamed, the catalog was not updated, no event was sent.
\<close>

theorem rename_preconditions:
  "(rid \<notin> gf_id ` set (catalog w) \<longrightarrow>
      GENERATED_RENAME E rid nb w = (Inl (makeErr ''FILE_NOT_FOUND'' msg_not_in_history None None), w))
   \<and> (find (\<lambda>x. gf_id x = rid) (catalog w) = Some found \<and> \<not> existsSync (files w) (gf_path found) \<longrightarrow>
      GENERATED_RENAME E rid nb w = (Inl (makeErr ''FILE_NOT_FOUND'' msg_not_on_disk None None), w))
   \<and> (find (\<lambda>x. gf_id x = rid) (catalog w) = Some found \<and> existsSync (files w) (gf_path found)
        \<and> sanitizeBaseName E nb = [] \<longrightarrow>
      GENERATED_RENAME E rid nb w = (Inl (makeErr ''VALIDATION_ERROR'' msg_invalid_name None None), w))"
proof -
  have "find (\<lambda>x. gf_id x = rid) (catalog w) = None" if "rid \<notin> gf_id ` set (catalog w)"
    using that by (auto simp add: find_None_iff)
  then show ?thesis by (simp add: GENERATED_RENAME_def store_list_def)
qed

text \<open>
  In \<open>world0\<close>: an identifier that is not catalogued, the record \<open>item-1\<close> whose file is
  not on disk, and the record \<open>item-0\<close> with a new name of forbidden characters only.
\<close>

theorem rename_preconditions_witness:
  "''item-9'' \<notin> gf_id ` set (catalog world0)
   \<and> GENERATED_RENAME env_ok ''item-9'' ''talk'' world0 =
       (Inl (makeErr ''FILE_NOT_FOUND'' msg_not_in_history None None), world0)
   \<and> find (\<lambda>x. gf_id x = ''item-1'') (catalog world0) = Some rec_b
   \<and> \<not> existsSync (files world0) (gf_path rec_b)
   \<and> GENERATED_RENAME env_ok ''item-1'' ''talk'' world0 =
       (Inl (makeErr ''FILE_NOT_FOUND'' msg_not_on_disk None None), world0)
   \<and> find (\<lambda>x. gf_id x = ''item-0'') (catalog world0) = Some rec_a
   \<and> existsSync (files world0) (gf_path rec_a)
   \<and> sanitizeBaseName env_ok '' ?* '' = []
   \<and> GENERATED_RENAME env_ok ''item-0'' '' ?* '' world0 =
       (Inl (makeErr ''VALIDATION_ERROR'' msg_invalid_name None None), world0)"
proof -
  have 1: "''item-9'' \<notin> gf_id ` set (catalog world0)"
    by (simp add: world0_def rec_a_def rec_b_def)
  have 2: "find (\<lambda>x. gf_id x = ''item-1'') (catalog world0) = Some rec_b
      \<and> \<not> existsSync (files world0) (gf_path rec_b)"
    by (simp add: world0_def rec_a_def rec_b_def existsSync_def)
  have 3: "find (\<lambda>x. gf_id x = ''item-0'') (catalog world0) = Some rec_a
      \<and> existsSync (files world0) (gf_path rec_a) \<and> sanitizeBaseName env_ok '' ?* '' = []"
    by (simp add: world0_def rec_a_def rec_b_def existsSync_def env_ok_def sanitize_defs)
  from rename_preconditions [of "''item-9''" world0 env_ok "''talk''" rec_a]
    rename_preconditions [of "''item-1''" world0 env_ok "''talk''" rec_b]
    rename_preconditions [of "''item-0''" world0 env_ok "'' ?* ''" rec_a] 1 2 3
  show ?thesis by simp
qed

text \<open>
  Claim C5. When the record is in the catalog and no file exists at its path,
  \<open>deleteArtifact\<close> does not call \<open>unlinkSync\<close>, so that whatever the operating system
  would answer, it succeeds: the files are as before, the record is no longer in the
  catalog, and the one event sent is the artifact-changed notification with reason
  \<open>DELETED\<close>.
\<close>

theorem delete_missing_file:
  "find (\<lambda>x. gf_id x = rid) (catalog w) = Some found \<Longrightarrow> \<not> existsSync (files w) (gf_path found) \<Longrightarrow>
   GENERATED_DELETE E rid w =
     (Inr (), w\<lparr>catalog := store_remove rid (catalog w), events := events w @ [GeneratedChanged DELETED]\<rparr>)
   \<and> rid \<notin> gf_id ` set (catalog (snd (GENERATED_DELETE E rid w)))
   \<and> emitted w (snd (GENERATED_DELETE E rid w)) = [GeneratedChanged DELETED]"
  by (auto simp add: GENERATED_DELETE_def store_list_def emit_def store_remove_def emitted_def)

text \<open>
  Deleting \<open>item-1\<close>, whose file is not on disk, in an environment where every change of
  a file is refused.
\<close>

theorem delete_missing_file_witness:
  "find (\<lambda>x. gf_id x = ''item-1'') (catalog world0) = Some rec_b
   \<and> \<not> existsSync (files world0) (gf_path rec_b)
   \<and> GENERATED_DELETE env_fs_denied ''item-1'' world0 =
       (Inr (), world0\<lparr>catalog := [rec_a], events := [GeneratedChanged DELETED]\<rparr>)"
proof -
  have 2: "find (\<lambda>x. gf_id x = ''item-1'') (catalog world0) = Some rec_b"
    and 3: "\<not> existsSync (files world0) (gf_path rec_b)"
    by (simp_all add: world0_def rec_a_def rec_b_def existsSync_def)
  from delete_missing_file [OF 2 3, of env_fs_denied] 2 3 show ?thesis
    by (simp add: store_remove_def world0_def rec_a_def rec_b_def)
qed

text \<open>
  Claim C8. \<open>listArtifacts\<close> returns the records of the catalog in their order, each
  with its existence flag set to the answer of \<open>fs.existsSync\<close> for its path at the time
  of the call and with its other fields as stored. The flags stored in the catalog do
  not matter: replacing them by any others gives the same list.
\<close>

theorem list_existence:
  "length (GENERATED_LIST w) = length (catalog w)
   \<and> (\<forall>i < length (catalog w).
        GENERATED_LIST w ! i = (catalog w ! i)\<lparr>gf_exists := existsSync (files w) (gf_path (catalog w ! i))\<rparr>)
   \<and> GENERATED_LIST (w\<lparr>catalog := map (\<lambda>x. x\<lparr>gf_exists := flag x\<rparr>) (catalog w)\<rparr>) = GENERATED_LIST w"
  by (simp add: GENERATED_LIST_def store_list_def comp_def)

text \<open>
  In \<open>world0\<close> both records are stored with the flag set, and only the file of the first
  is on disk: the second is listed with the flag unset.
\<close>

theorem list_existence_witness:
  "GENERATED_LIST world0 = [rec_a, rec_b\<lparr>gf_exists := False\<rparr>]
   \<and> GENERATED_LIST (world0\<lparr>catalog := map (\<lambda>x. x\<lparr>gf_exists := False\<rparr>) (catalog world0)\<rparr>)
       = [rec_a, rec_b\<lparr>gf_exists := False\<rparr>]"
proof -
  note l = list_existence [of world0 "\<lambda>x. False"]
  have c: "catalog world0 = [rec_a, rec_b]" by (simp add: world0_def)
  have e: "existsSync (files world0) (gf_path rec_a) \<and> \<not> existsSync (files world0) (gf_path rec_b)"
    by (simp add: world0_def rec_a_def rec_b_def existsSync_def)
  from l c have n: "length (GENERATED_LIST world0) = 2" by simp
  from l c e have 0: "GENERATED_LIST world0 ! 0 = rec_a" by (simp add: rec_a_def)
  from l c e have 1: "GENERATED_LIST world0 ! 1 = rec_b\<lparr>gf_exists := False\<rparr>" by simp
  have "GENERATED_LIST world0 = [rec_a, rec_b\<lparr>gf_exists := False\<rparr>]"
    using n 0 1 by (simp add: list_eq_iff_nth_eq less_Suc_eq numeral_2_eq_2)
  with l show ?thesis by simp
qed

lemma decimal_digits: "set (decimal k) \<subseteq> set ''0123456789''"
proof (induction k rule: decimal.induct)
  case (1 n)
  have d: "''0123456789'' ! m \<in> set ''0123456789''" if "m < 10" for m
    using that by (intro nth_mem) simp
  show ?case
  proof (cases "n < 10")
    case True
    then show ?thesis using d[of n] by (subst decimal.simps) simp
  next
    case False
    have "n mod 10 < 10" by simp
    from d[OF this] 1[OF False] False show ?thesis by (subst decimal.simps) simp
  qed
qed

lemma decimal_no_slash: "CHR ''/'' \<notin> set (decimal k)"
  using decimal_digits[of k] by auto

lemma takeWhile_stop: "\<forall>x\<in>set xs. P x \<Longrightarrow> \<not> P y \<Longrightarrow> takeWhile P (xs @ y # ys) = xs"
  by (induction xs) auto

lemma dropWhile_stop: "\<forall>x\<in>set xs. P x \<Longrightarrow> \<not> P y \<Longrightarrow> dropWhile P (xs @ y # ys) = y # ys"
  by (induction xs) auto

lemma posix_basename_slash:
  assumes "CHR ''/'' \<notin> set m"
  shows "posix_basename (d @ ''/'' @ m) = m"
proof -
  from assms have "\<forall>x\<in>set (rev m). x \<noteq> CHR ''/''" by auto
  then have "takeWhile (\<lambda>c. c \<noteq> CHR ''/'') (rev m @ CHR ''/'' # rev d) = rev m"
    by (rule takeWhile_stop) simp
  then show ?thesis by (simp add: posix_basename_def)
qed

lemma posix_dirname_slash:
  assumes "CHR ''/'' \<notin> set m" "d \<noteq> []"
  shows "posix_dirname (d @ ''/'' @ m) = d"
proof -
  from assms have "\<forall>x\<in>set (rev m). x \<noteq> CHR ''/''" by auto
  then have "dropWhile (\<lambda>c. c \<noteq> CHR ''/'') (rev m @ CHR ''/'' # rev d) = CHR ''/'' # rev d"
    by (rule dropWhile_stop) simp
  with assms(2) show ?thesis by (simp add: posix_dirname_def Let_def)
qed

lemma posix_join_name:
  "n \<noteq> [] \<Longrightarrow> posix_join ''/out'' (n @ ''.srt'') = ''/out/'' @ n @ ''.srt''"
  by (cases n) (auto simp add: posix_join_def)

lemma posix_extname_srt:
  assumes "CHR ''/'' \<notin> set n" "n \<noteq> []"
  shows "posix_extname (d @ ''/'' @ n @ ''.srt'') = ''.srt''"
proof -
  have b: "posix_basename (d @ ''/'' @ n @ ''.srt'') = n @ ''.srt''"
    using posix_basename_slash[of "n @ ''.srt''" d] assms by simp
  have t: "takeWhile (\<lambda>c. c \<noteq> CHR ''.'') (rev (n @ ''.srt'')) = ''trs''" by simp
  have ne: "n @ ''.srt'' \<noteq> ''..''" by (cases n) auto
  from assms(2) have l: "length n \<noteq> 0" by simp
  show ?thesis unfolding posix_extname_def b Let_def t using ne l by simp
qed

lemma posix_basename_ext_srt:
  assumes "CHR ''/'' \<notin> set n" "n \<noteq> []"
  shows "posix_basename_ext (d @ ''/'' @ n @ ''.srt'') ''.srt'' = n"
proof -
  have b: "posix_basename (d @ ''/'' @ n @ ''.srt'') = n @ ''.srt''"
    using posix_basename_slash[of "n @ ''.srt''" d] assms by simp
  from assms(2) have l: "0 < length n" by simp
  show ?thesis unfolding posix_basename_ext_def b Let_def using l by simp
qed

lemma posix_laws_out_srt:
  assumes "CHR ''/'' \<notin> set n" "n \<noteq> []"
  shows "path_dirname posix (path_join posix ''/out'' (n @ ''.srt'')) = ''/out''
    \<and> path_extname posix (path_join posix ''/out'' (n @ ''.srt'')) = ''.srt''
    \<and> path_basename_ext posix (path_join posix ''/out'' (n @ ''.srt'')) ''.srt'' = n"
proof -
  have j: "path_join posix ''/out'' (n @ ''.srt'') = ''/out'' @ ''/'' @ n @ ''.srt''"
    using posix_join_name[OF assms(2)] by (simp add: posix_def)
  have s: "CHR ''/'' \<notin> set (n @ ''.srt'')" using assms(1) by simp
  show ?thesis unfolding j
    using posix_dirname_slash[OF s, of "''/out''"] posix_extname_srt[OF assms, of "''/out''"]
      posix_basename_ext_srt[OF assms, of "''/out''"]
    by (simp add: posix_def)
qed

lemma posix_laws_names:
  "\<forall>n \<in> insert ''X'' ((\<lambda>k. ''X'' @ '' ('' @ decimal k @ '')'') ` {1..<1000}).
       path_dirname posix (path_join posix ''/out'' (n @ ''.srt'')) = ''/out''
     \<and> path_extname posix (path_join posix ''/out'' (n @ ''.srt'')) = ''.srt''
     \<and> path_basename_ext posix (path_join posix ''/out'' (n @ ''.srt'')) ''.srt'' = n"
proof
  fix n
  assume "n \<in> insert ''X'' ((\<lambda>k. ''X'' @ '' ('' @ decimal k @ '')'') ` {1..<1000})"
  then have "CHR ''/'' \<notin> set n \<and> n \<noteq> []" using decimal_no_slash by auto
  then show "path_dirname posix (path_join posix ''/out'' (n @ ''.srt'')) = ''/out''
     \<and> path_extname posix (path_join posix ''/out'' (n @ ''.srt'')) = ''.srt''
     \<and> path_basename_ext posix (path_join posix ''/out'' (n @ ''.srt'')) ''.srt'' = n"
    using posix_laws_out_srt[of n] by blast
qed

lemma resolve_kept:
  assumes laws: "\<forall>n \<in> insert base ((\<lambda>k. base @ '' ('' @ decimal k @ '')'') ` {1..<1000}).
        path_dirname P (path_join P d (n @ x)) = d
      \<and> path_extname P (path_join P d (n @ x)) = x
      \<and> path_basename_ext P (path_join P d (n @ x)) x = n"
  shows "path_dirname P (resolveNonCollidingPath P fs (path_join P d (base @ x))) = d
    \<and> path_extname P (resolveNonCollidingPath P fs (path_join P d (base @ x))) = x
    \<and> (resolveNonCollidingPath P fs (path_join P d (base @ x)) = path_join P d (base @ x)
        \<or> (\<exists>k. 1 \<le> k \<and> k < 1000 \<and>
              resolveNonCollidingPath P fs (path_join P d (base @ x))
                = path_join P d (base @ '' ('' @ decimal k @ '')'' @ x)))"
proof -
  let ?p = "path_join P d (base @ x)"
  from laws have b: "path_dirname P ?p = d" "path_extname P ?p = x" "path_basename_ext P ?p x = base"
    by simp_all
  have c: "candidate P ?p k = path_join P d (base @ '' ('' @ decimal k @ '')'' @ x)" for k
    by (simp add: candidate_def b)
  have lk: "path_dirname P (path_join P d ((base @ '' ('' @ decimal k @ '')'') @ x)) = d
      \<and> path_extname P (path_join P d ((base @ '' ('' @ decimal k @ '')'') @ x)) = x"
    if "1 \<le> k" "k < 1000" for k
  proof -
    from that have "base @ '' ('' @ decimal k @ '')'' \<in> (\<lambda>k. base @ '' ('' @ decimal k @ '')'') ` {1..<1000}"
      by (intro imageI) simp
    with laws show ?thesis by blast
  qed
  from resolve_cases[of P fs ?p] show ?thesis
  proof
    assume "resolveNonCollidingPath P fs ?p = ?p"
    with b show ?thesis by simp
  next
    assume "\<exists>k. 1 \<le> k \<and> k < 1000 \<and> resolveNonCollidingPath P fs ?p = candidate P ?p k"
    then obtain k where k: "1 \<le> k" "k < 1000" "resolveNonCollidingPath P fs ?p = candidate P ?p k"
      by blast
    from lk[OF k(1,2)] k c[of k] show ?thesis by auto
  qed
qed

lemma rename_success:
  assumes r: "GENERATED_RENAME E rid nb w = (Inr item, w')"
    and f: "find (\<lambda>x. gf_id x = rid) (catalog w) = Some found"
  shows "gf_path item = resolveNonCollidingPath (paths E) (files w)
           (path_join (paths E) (path_dirname (paths E) (gf_path found))
              (sanitizeBaseName E nb @ path_extname (paths E) (gf_path found)))
   \<and> sanitizeBaseName E nb \<noteq> []
   \<and> item = found\<lparr>gf_path := gf_path item, gf_fileName := path_basename (paths E) (gf_path item),
                    gf_exists := True\<rparr>
   \<and> existsSync (files w) (gf_path found) \<and> existsSync (files w') (gf_path item)
   \<and> catalog w' = map (\<lambda>x. if gf_id x = rid then item else x) (catalog w)
   \<and> emitted w w' = [GeneratedChanged RENAMED]"
  using r f find_id[OF f]
  by (auto simp add: GENERATED_RENAME_def store_list_def Let_def renameSync_def store_update_def
      emit_def emitted_def existsSync_def split: if_splits option.splits sum.splits)

lemma world_noext_catalog:
  "catalog world_noext = [rec_a, rec_b,
     \<lparr>gf_id = ''item-2'', gf_path = ''/out/noext'', gf_fileName = ''noext'', gf_format = srt,
      gf_language = Some ''pt'', gf_modelId = Some ''small'',
      gf_createdAtISO = ''2024-05-01T10:00:00.000Z'', gf_exists = True\<rparr>]"
  by (simp add: world_noext_def req_noext_def job_defs sample_defs posix_defs Let_def)

lemma world_noext_files:
  "files world_noext = {''/out/noext'', ''/tmp/job-1/audio.srt'', ''/out/a.srt'', ''/out/X.srt'', ''/out/X (1).srt''}"
  by (simp add: world_noext_def req_noext_def job_defs sample_defs posix_defs Let_def)

text \<open>
  Claim C9, as amended. After a successful \<open>renameArtifact\<close> of the record \<open>found\<close>, the
  returned item is \<open>found\<close> with a new path and file name (and the existence flag set:
  the file existed at the old path before and exists at the new path after); the
  identifier, format, language, model identifier and creation time are those of
  \<open>found\<close>. The new path is the collision-free resolution of \<open>join(d, base + x)\<close>, where
  \<open>d\<close> and \<open>x\<close> are \<open>dirname\<close> and \<open>extname\<close> of the old path and \<open>base\<close> is the sanitized
  name: this path itself or one of its candidates; the file name is the base name of
  the new path. The new path need not have the directory and the extension of the old
  one. It has them, and is \<open>join(d, base + x)\<close> or \<open>join(d, base + " (k)" + x)\<close>, if the
  path functions take the joined names apart again: if for \<open>base\<close> and each of its 999
  suffixed variants \<open>n\<close>, \<open>dirname(join(d, n + x)) = d\<close>, \<open>extname(join(d, n + x)) = x\<close>
  and \<open>basename(join(d, n + x), x) = n\<close>. The records of the catalog with another
  identifier are unchanged, and the one event sent is the artifact-changed notification
  with reason \<open>RENAMED\<close>.
\<close>

theorem rename_frame:
  "GENERATED_RENAME E rid nb w = (Inr item, w') \<Longrightarrow>
   find (\<lambda>x. gf_id x = rid) (catalog w) = Some found \<Longrightarrow>
   (let P = paths E; d = path_dirname P (gf_path found); x = path_extname P (gf_path found);
        base = sanitizeBaseName E nb; newPath = path_join P d (base @ x)
    in gf_path item = resolveNonCollidingPath P (files w) newPath
       \<and> (gf_path item = newPath
           \<or> (\<exists>k. 1 \<le> k \<and> k < 1000 \<and> gf_path item = candidate P newPath k))
       \<and> base \<noteq> []
       \<and> gf_fileName item = path_basename P (gf_path item)
       \<and> ((\<forall>n \<in> insert base ((\<lambda>k. base @ '' ('' @ decimal k @ '')'') ` {1..<1000}).
               path_dirname P (path_join P d (n @ x)) = d
             \<and> path_extname P (path_join P d (n @ x)) = x
             \<and> path_basename_ext P (path_join P d (n @ x)) x = n)
           \<longrightarrow> path_dirname P (gf_path item) = d
             \<and> path_extname P (gf_path item) = x
             \<and> (gf_path item = path_join P d (base @ x)
                 \<or> (\<exists>k. 1 \<le> k \<and> k < 1000 \<and>
                       gf_path item = path_join P d (base @ '' ('' @ decimal k @ '')'' @ x)))))
   \<and> gf_id item = rid \<and> gf_id item = gf_id found
   \<and> gf_format item = gf_format found
   \<and> gf_language item = gf_language found
   \<and> gf_modelId item = gf_modelId found
   \<and> gf_createdAtISO item = gf_createdAtISO found
   \<and> item = found\<lparr>gf_path := gf_path item, gf_fileName := gf_fileName item, gf_exists := True\<rparr>
   \<and> existsSync (files w) (gf_path found) \<and> existsSync (files w') (gf_path item)
   \<and> catalog w' = map (\<lambda>x. if gf_id x = rid then item else x) (catalog w)
   \<and> emitted w w' = [GeneratedChanged RENAMED]"
proof -
  assume r: "GENERATED_RENAME E rid nb w = (Inr item, w')"
    and f: "find (\<lambda>x. gf_id x = rid) (catalog w) = Some found"
  note s = rename_success[OF r f]
  note i = find_id[OF f]
  let ?P = "paths E"
  let ?d = "path_dirname ?P (gf_path found)"
  let ?x = "path_extname ?P (gf_path found)"
  let ?base = "sanitizeBaseName E nb"
  let ?new = "path_join ?P ?d (?base @ ?x)"
  from s have p: "gf_path item = resolveNonCollidingPath ?P (files w) ?new" by blast
  define pth where "pth = gf_path item"
  from s have it: "item = found\<lparr>gf_path := pth, gf_fileName := path_basename ?P pth, gf_exists := True\<rparr>"
    unfolding pth_def by blast
  have fn: "gf_fileName item = path_basename ?P (gf_path item)" by (simp add: it)
  have fr: "gf_id item = gf_id found \<and> gf_format item = gf_format found
      \<and> gf_language item = gf_language found \<and> gf_modelId item = gf_modelId found
      \<and> gf_createdAtISO item = gf_createdAtISO found" by (simp add: it)
  have it2: "item = found\<lparr>gf_path := gf_path item, gf_fileName := gf_fileName item, gf_exists := True\<rparr>"
    by (simp add: it)
  have shape: "gf_path item = ?new \<or> (\<exists>k. 1 \<le> k \<and> k < 1000 \<and> gf_path item = candidate ?P ?new k)"
    using resolve_cases[of ?P "files w" ?new] p by simp
  have kept: "path_dirname ?P (gf_path item) = ?d \<and> path_extname ?P (gf_path item) = ?x
      \<and> (gf_path item = path_join ?P ?d (?base @ ?x)
          \<or> (\<exists>k. 1 \<le> k \<and> k < 1000 \<and>
                gf_path item = path_join ?P ?d (?base @ '' ('' @ decimal k @ '')'' @ ?x)))"
    if "\<forall>n \<in> insert ?base ((\<lambda>k. ?base @ '' ('' @ decimal k @ '')'') ` {1..<1000}).
               path_dirname ?P (path_join ?P ?d (n @ ?x)) = ?d
             \<and> path_extname ?P (path_join ?P ?d (n @ ?x)) = ?x
             \<and> path_basename_ext ?P (path_join ?P ?d (n @ ?x)) ?x = n"
    using resolve_kept[OF that, of "files w"] p by simp
  from s have rest: "?base \<noteq> [] \<and> existsSync (files w) (gf_path found)
      \<and> existsSync (files w') (gf_path item)
      \<and> catalog w' = map (\<lambda>x. if gf_id x = rid then item else x) (catalog w)
      \<and> emitted w w' = [GeneratedChanged RENAMED]" by blast
  show ?thesis unfolding Let_def
    using p shape fn kept fr i it2 rest by blast
qed

text \<open>
  Renaming \<open>/out/a.srt\<close> to \<open>X\<close> while \<open>/out/X.srt\<close> and \<open>/out/X (1).srt\<close> exist gives
  \<open>/out/X (2).srt\<close>. In the directory \<open>/out\<close> and with the extension \<open>.srt\<close> the path
  functions take the name \<open>X\<close> and its suffixed variants apart again, and the new path has
  this directory and this extension.
\<close>

theorem rename_frame_witness:
  "find (\<lambda>x. gf_id x = ''item-0'') (catalog world0) = Some rec_a
   \<and> fst (GENERATED_RENAME env_ok ''item-0'' '' X '' world0)
       = Inr (rec_a\<lparr>gf_path := ''/out/X (2).srt'', gf_fileName := ''X (2).srt''\<rparr>)
   \<and> path_dirname posix (gf_path rec_a) = ''/out'' \<and> path_extname posix (gf_path rec_a) = ''.srt''
   \<and> sanitizeBaseName env_ok '' X '' = ''X''
   \<and> path_dirname posix ''/out/X (2).srt'' = ''/out''
   \<and> path_extname posix ''/out/X (2).srt'' = ''.srt''
   \<and> catalog (snd (GENERATED_RENAME env_ok ''item-0'' '' X '' world0))
       = [rec_a\<lparr>gf_path := ''/out/X (2).srt'', gf_fileName := ''X (2).srt''\<rparr>, rec_b]
   \<and> emitted world0 (snd (GENERATED_RENAME env_ok ''item-0'' '' X '' world0)) = [GeneratedChanged RENAMED]"
proof -
  have f: "find (\<lambda>x. gf_id x = ''item-0'') (catalog world0) = Some rec_a"
    by (simp add: world0_def rec_a_def)
  have s: "sanitizeBaseName env_ok '' X '' = ''X''"
    by (simp add: env_ok_def sanitize_defs)
  have dx: "path_dirname posix (gf_path rec_a) = ''/out'' \<and> path_extname posix (gf_path rec_a) = ''.srt''"
    by (simp add: rec_a_def posix_defs Let_def)
  have pe: "paths env_ok = posix" by (simp add: env_ok_def)
  have below: "\<forall>j. 1 \<le> j \<and> j < 2 \<longrightarrow> existsSync (files world0) (candidate posix ''/out/X.srt'' j)"
  proof (intro allI impI)
    fix j :: nat
    assume "1 \<le> j \<and> j < 2"
    then have "j = Suc 0" by arith
    then show "existsSync (files world0) (candidate posix ''/out/X.srt'' j)"
      by (simp add: cand1 existsSync_def world0_def)
  qed
  have "probe posix (files world0) ''/out/X.srt'' 1 = candidate posix ''/out/X.srt'' 2"
    using probe_first [of 1 2 "files world0" posix "''/out/X.srt''"] below
    by (simp add: cand2 existsSync_def world0_def)
  then have p: "resolveNonCollidingPath posix (files world0) ''/out/X.srt'' = ''/out/X (2).srt''"
    by (simp add: resolveNonCollidingPath_def existsSync_def world0_def cand2)
  have r: "fst (GENERATED_RENAME env_ok ''item-0'' '' X '' world0)
       = Inr (rec_a\<lparr>gf_path := ''/out/X (2).srt'', gf_fileName := ''X (2).srt''\<rparr>)"
    using f s p
    by (simp add: GENERATED_RENAME_def store_list_def Let_def renameSync_def store_update_def
        existsSync_def)
       (simp add: env_ok_def posix_defs world0_def rec_a_def rec_b_def Let_def store_update_def)
  then have "GENERATED_RENAME env_ok ''item-0'' '' X '' world0 =
      (Inr (rec_a\<lparr>gf_path := ''/out/X (2).srt'', gf_fileName := ''X (2).srt''\<rparr>),
       snd (GENERATED_RENAME env_ok ''item-0'' '' X '' world0))"
    by (metis prod.collapse)
  note t = rename_frame [OF this f, unfolded Let_def pe s]
  from dx have dxa: "path_dirname posix (gf_path rec_a) = ''/out''"
    and dxb: "path_extname posix (gf_path rec_a) = ''.srt''" by simp_all
  note t2 = t [unfolded dxa dxb]
  from t2 posix_laws_names
  have "path_dirname posix (gf_path (rec_a\<lparr>gf_path := ''/out/X (2).srt'', gf_fileName := ''X (2).srt''\<rparr>)) = ''/out''
      \<and> path_extname posix (gf_path (rec_a\<lparr>gf_path := ''/out/X (2).srt'', gf_fileName := ''X (2).srt''\<rparr>)) = ''.srt''"
    by blast
  then have k: "path_dirname posix ''/out/X (2).srt'' = ''/out'' \<and> path_extname posix ''/out/X (2).srt'' = ''.srt''"
    by simp
  from t have "catalog (snd (GENERATED_RENAME env_ok ''item-0'' '' X '' world0))
       = map (\<lambda>x. if gf_id x = ''item-0''
                    then rec_a\<lparr>gf_path := ''/out/X (2).srt'', gf_fileName := ''X (2).srt''\<rparr> else x)
           (catalog world0)
     \<and> emitted world0 (snd (GENERATED_RENAME env_ok ''item-0'' '' X '' world0)) = [GeneratedChanged RENAMED]"
    by blast
  then have c: "catalog (snd (GENERATED_RENAME env_ok ''item-0'' '' X '' world0))
       = [rec_a\<lparr>gf_path := ''/out/X (2).srt'', gf_fileName := ''X (2).srt''\<rparr>, rec_b]
     \<and> emitted world0 (snd (GENERATED_RENAME env_ok ''item-0'' '' X '' world0)) = [GeneratedChanged RENAMED]"
    by (simp add: world0_def rec_a_def rec_b_def)
  from f r dx s k c show ?thesis by blast
qed

text \<open>
  Claim C9 as stated fails. The job \<open>req_noext\<close> writes to \<open>/out/noext\<close>, a path without
  extension; renaming its record to \<open>b.txt\<close> succeeds with the path \<open>/out/b.txt\<close>, whose
  extension is \<open>.txt\<close>, while the old path had none.
\<close>

theorem rename_frame_counterexample:
  "find (\<lambda>x. gf_id x = ''item-2'') (catalog world_noext) =
     Some \<lparr>gf_id = ''item-2'', gf_path = ''/out/noext'', gf_fileName = ''noext'', gf_format = srt,
           gf_language = Some ''pt'', gf_modelId = Some ''small'',
           gf_createdAtISO = ''2024-05-01T10:00:00.000Z'', gf_exists = True\<rparr>
   \<and> fst (GENERATED_RENAME env_ok ''item-2'' ''b.txt'' world_noext) =
     Inr \<lparr>gf_id = ''item-2'', gf_path = ''/out/b.txt'', gf_fileName = ''b.txt'', gf_format = srt,
          gf_language = Some ''pt'', gf_modelId = Some ''small'',
          gf_createdAtISO = ''2024-05-01T10:00:00.000Z'', gf_exists = True\<rparr>
   \<and> path_extname (paths env_ok) ''/out/noext'' = []
   \<and> path_extname (paths env_ok) ''/out/b.txt'' = ''.txt''"
proof -
  have s: "sanitizeBaseName env_ok ''b.txt'' = ''b.txt''"
    by (simp add: env_ok_def sanitize_defs)
  have pe: "paths env_ok = posix" by (simp add: env_ok_def)
  have x: "path_extname posix ''/out/noext'' = [] \<and> path_extname posix ''/out/b.txt'' = ''.txt''
      \<and> path_dirname posix ''/out/noext'' = ''/out'' \<and> path_join posix ''/out'' ''b.txt'' = ''/out/b.txt''
      \<and> path_basename posix ''/out/b.txt'' = ''b.txt''"
    by (simp add: posix_defs Let_def)
  have f: "find (\<lambda>x. gf_id x = ''item-2'') (catalog world_noext) =
     Some \<lparr>gf_id = ''item-2'', gf_path = ''/out/noext'', gf_fileName = ''noext'', gf_format = srt,
           gf_language = Some ''pt'', gf_modelId = Some ''small'',
           gf_createdAtISO = ''2024-05-01T10:00:00.000Z'', gf_exists = True\<rparr>"
    by (simp add: world_noext_catalog rec_a_def rec_b_def)
  have r: "fst (GENERATED_RENAME env_ok ''item-2'' ''b.txt'' world_noext) =
     Inr \<lparr>gf_id = ''item-2'', gf_path = ''/out/b.txt'', gf_fileName = ''b.txt'', gf_format = srt,
          gf_language = Some ''pt'', gf_modelId = Some ''small'',
          gf_createdAtISO = ''2024-05-01T10:00:00.000Z'', gf_exists = True\<rparr>"
    using f s x
    by (simp add: GENERATED_RENAME_def store_list_def Let_def renameSync_def store_update_def
        existsSync_def resolveNonCollidingPath_def pe world_noext_files)
       (simp add: env_ok_def world_noext_catalog rec_a_def rec_b_def Let_def store_update_def)
  from f r x pe show ?thesis by simp
qed

end
